theory Spec2Isabelle
  imports Main "HOL-Library.Sublist"
begin

section \<open>Python values used by the deobfuscation worker\<close>

text \<open>
  Python strings are sequences of Unicode code points; a code point is modelled as a
  natural number and a string as a list of them.  Exceptions are values of the type
  \<open>py_error\<close>; a computation that may raise returns \<open>py_error + 'a\<close>.
\<close>

type_synonym ustr = "nat list"

text \<open>
  The built-in exceptions, and one constructor for each \<open>ValueError\<close> or
  \<open>RuntimeError\<close> that the worker raises itself, named after its message.
\<close>

datatype py_error =
    IndexError | ValueError | OverflowError | ZeroDivisionError | TypeError
  | NotAStringLiteral     \<comment> \<open>\<open>ValueError("Not a JS string literal: ...")\<close>\<close>
  | ExpectedOpen          \<comment> \<open>\<open>ValueError("Expected {open_ch} at {start}")\<close>\<close>
  | UnbalancedBrackets    \<comment> \<open>\<open>ValueError("Unbalanced brackets")\<close>\<close>
  | RotationFailed        \<comment> \<open>\<open>RuntimeError("Failed to rotate string table ...")\<close>\<close>

definition ustr :: "string \<Rightarrow> ustr" where
  "ustr s = map of_char s"

text \<open>\<open>list.__getitem__\<close> with an integer: a negative index counts from the end.\<close>

definition py_getitem :: "'a list \<Rightarrow> int \<Rightarrow> py_error + 'a" where
  "py_getitem xs i =
     (let n = int (length xs); j = (if i < 0 then i + n else i)
      in if 0 \<le> j \<and> j < n then Inr (xs ! nat j) else Inl IndexError)"

abbreviation (input) ord :: "char \<Rightarrow> nat" where
  "ord c \<equiv> of_char c"

text \<open>
  The Unicode character database is not part of the program.  The two tables the
  worker's library calls consult for non-ASCII code points are taken as parameters:
  the decimal-digit value (\<open>Py_UNICODE_TODECIMAL\<close>) and alphanumericity
  (\<open>str.isalnum\<close>).  ASCII code points are classified by the definitions below.
\<close>

record unicode_db =
  u_decimal :: "nat \<Rightarrow> nat option"
  u_alnum :: "nat \<Rightarrow> bool"

definition ascii_db :: unicode_db where
  "ascii_db = \<lparr> u_decimal = (\<lambda>_. None), u_alnum = (\<lambda>_. False) \<rparr>"

text \<open>\<open>str.isspace\<close> for one code point (the complete list of Unicode white space).\<close>

definition is_uspace :: "nat \<Rightarrow> bool" where
  "is_uspace c \<longleftrightarrow>
     (9 \<le> c \<and> c \<le> 13) \<or> (28 \<le> c \<and> c \<le> 32) \<or> c = 0x85 \<or> c = 0xA0 \<or> c = 0x1680 \<or>
     (0x2000 \<le> c \<and> c \<le> 0x200A) \<or> c = 0x2028 \<or> c = 0x2029 \<or> c = 0x202F \<or>
     c = 0x205F \<or> c = 0x3000"

text \<open>C \<open>isspace\<close> on ASCII, as used by the integer parser.\<close>

definition is_cspace :: "nat \<Rightarrow> bool" where
  "is_cspace c \<longleftrightarrow> (9 \<le> c \<and> c \<le> 13) \<or> c = 32"

subsection \<open>\<open>int(s, base)\<close> for a string\<close>

text \<open>
  First every code point from 127 on is replaced: white space by a blank, a decimal
  digit by its ASCII digit; any other such code point makes the literal invalid.
\<close>

definition int_norm_char :: "unicode_db \<Rightarrow> nat \<Rightarrow> nat option" where
  "int_norm_char U c =
     (if c < 127 then Some c
      else if is_uspace c then Some 32
      else map_option (\<lambda>d. 48 + d) (u_decimal U c))"

fun int_norm :: "unicode_db \<Rightarrow> ustr \<Rightarrow> ustr option" where
  "int_norm U [] = Some []"
| "int_norm U (c # cs) =
     (case int_norm_char U c of None \<Rightarrow> None
      | Some d \<Rightarrow> map_option ((#) d) (int_norm U cs))"

text \<open>The value of a digit character (\<open>_PyLong_DigitValue\<close>): 0-9, a-z, A-Z.\<close>

definition digit_value :: "nat \<Rightarrow> nat option" where
  "digit_value c =
     (if 48 \<le> c \<and> c \<le> 57 then Some (c - 48)
      else if 97 \<le> c \<and> c \<le> 122 then Some (c - 87)
      else if 65 \<le> c \<and> c \<le> 90 then Some (c - 55)
      else None)"

definition is_digit_in :: "nat \<Rightarrow> nat \<Rightarrow> bool" where
  "is_digit_in base c = (case digit_value c of None \<Rightarrow> False | Some d \<Rightarrow> d < base)"

text \<open>
  The digit run: digits below the base with single underscores between them.  The
  function returns the accumulated value and the unread rest, or \<open>None\<close> for a doubled
  or trailing underscore.  \<open>prev_us\<close> tells whether the previous character was an
  underscore.
\<close>

fun int_digits :: "nat \<Rightarrow> bool \<Rightarrow> nat \<Rightarrow> ustr \<Rightarrow> (nat \<times> ustr) option" where
  "int_digits base prev_us acc [] = (if prev_us then None else Some (acc, []))"
| "int_digits base prev_us acc (c # cs) =
     (if c = ord CHR ''_'' then (if prev_us then None else int_digits base True acc cs)
      else if is_digit_in base c
        then int_digits base False (acc * base + the (digit_value c)) cs
      else if prev_us then None else Some (acc, c # cs))"

definition starts_prefix :: "ustr \<Rightarrow> nat \<Rightarrow> nat \<Rightarrow> bool" where
  "starts_prefix s lo up \<longleftrightarrow>
     (case s of z # p # _ \<Rightarrow> z = ord CHR ''0'' \<and> (p = lo \<or> p = up) | _ \<Rightarrow> False)"

text \<open>
  \<open>py_int base s\<close> for \<open>base\<close> 0 or from 2 to 36: surrounding white space, an optional
  sign, an optional base prefix (which one underscore may follow), the digit run.
  With base 0 the prefix selects the base, and a decimal literal with a leading zero
  must be zero.
\<close>

definition py_int :: "unicode_db \<Rightarrow> nat \<Rightarrow> ustr \<Rightarrow> py_error + int" where
  "py_int U base s =
     (case int_norm U s of None \<Rightarrow> Inl ValueError
      | Some t \<Rightarrow>
         let t1 = dropWhile is_cspace t;
             neg = (t1 \<noteq> [] \<and> hd t1 = ord CHR ''-'');
             t2 = (if t1 \<noteq> [] \<and> (hd t1 = ord CHR ''+'' \<or> hd t1 = ord CHR ''-'') then tl t1 else t1);
             hex = starts_prefix t2 (ord CHR ''x'') (ord CHR ''X'');
             oct = starts_prefix t2 (ord CHR ''o'') (ord CHR ''O'');
             bin = starts_prefix t2 (ord CHR ''b'') (ord CHR ''B'');
             b = (if base \<noteq> 0 then base
                  else if hex then 16 else if oct then 8 else if bin then 2 else 10);
             must_be_zero = (base = 0 \<and> t2 \<noteq> [] \<and> hd t2 = ord CHR ''0''
                             \<and> \<not> hex \<and> \<not> oct \<and> \<not> bin);
             skip = ((b = 16 \<and> hex) \<or> (b = 8 \<and> oct) \<or> (b = 2 \<and> bin));
             t3 = (if skip then drop 2 t2 else t2);
             t4 = (if skip \<and> t3 \<noteq> [] \<and> hd t3 = ord CHR ''_'' then tl t3 else t3)
         in if t4 = [] \<or> hd t4 = ord CHR ''_'' then Inl ValueError
            else (case int_digits b False 0 t4 of None \<Rightarrow> Inl ValueError
                  | Some (v, rest) \<Rightarrow>
                      if length rest = length t4 then Inl ValueError
                      else if must_be_zero \<and> v \<noteq> 0 then Inl ValueError
                      else if dropWhile is_cspace rest \<noteq> [] then Inl ValueError
                      else Inr (if neg then - int v else int v)))"

text \<open>\<open>chr(n)\<close>\<close>

definition py_chr :: "int \<Rightarrow> py_error + nat" where
  "py_chr n =
     (if n < - (2 ^ 31) \<or> 2 ^ 31 \<le> n then Inl OverflowError
      else if 0 \<le> n \<and> n \<le> 0x10FFFF then Inr (nat n) else Inl ValueError)"

text \<open>\<open>chr(int(s, 16))\<close>, as the literal decoder uses it.\<close>

definition chr_hex :: "unicode_db \<Rightarrow> ustr \<Rightarrow> py_error + nat" where
  "chr_hex U s = (case py_int U 16 s of Inl e \<Rightarrow> Inl e | Inr n \<Rightarrow> py_chr n)"

text \<open>\<open>s.find(c)\<close> for a single character: the first index, or \<open>None\<close> for -1.\<close>

fun find_char :: "nat \<Rightarrow> ustr \<Rightarrow> nat option" where
  "find_char c [] = None"
| "find_char c (x # xs) = (if x = c then Some 0 else map_option Suc (find_char c xs))"


section \<open>The decode function (\<open>main.decode\<close>)\<close>

text \<open>\<open>def decode(num): return arr[num - offset]\<close>\<close>

definition decode :: "'a list \<Rightarrow> int \<Rightarrow> int \<Rightarrow> py_error + 'a" where
  "decode arr offset num = py_getitem arr (num - offset)"

section \<open>The string-literal decoder (\<open>_decode_js_string_literal\<close>)\<close>

text \<open>
  The \<open>while i < len(body)\<close> loop.  The second argument is \<open>body[i:]\<close>, the third the
  list \<open>out\<close>.  Every branch of the source is a branch here; \<open>chr(int(..., 16))\<close> may
  raise, and the exception leaves the function.
\<close>

fun decode_loop :: "unicode_db \<Rightarrow> ustr \<Rightarrow> ustr \<Rightarrow> py_error + ustr" where
  "decode_loop U [] out = Inr out"
| "decode_loop U (c # rest) out =
     (if c \<noteq> ord CHR 0x5C then decode_loop U rest (out @ [c])
      else (case rest of
          [] \<Rightarrow> Inr out
        | esc # r \<Rightarrow>
           (if esc = ord CHR ''x'' \<and> 2 \<le> length r then
              (case chr_hex U (take 2 r) of
                 Inl e \<Rightarrow> Inl e
               | Inr v \<Rightarrow> decode_loop U (drop 2 r) (out @ [v]))
            else if esc = ord CHR ''u'' then
              (if r \<noteq> [] \<and> hd r = ord CHR ''{'' then
                 (case find_char (ord CHR ''}'') (tl r) of
                    None \<Rightarrow> decode_loop U r (out @ [ord CHR ''u''])
                  | Some k \<Rightarrow>
                     (case chr_hex U (take k (tl r)) of
                        Inl e \<Rightarrow> Inl e
                      | Inr v \<Rightarrow> decode_loop U (drop (Suc k) (tl r)) (out @ [v])))
               else
                 (case chr_hex U (take 4 r) of
                    Inl e \<Rightarrow> Inl e
                  | Inr v \<Rightarrow> decode_loop U (drop 4 r) (out @ [v])))
            else if esc = ord CHR ''n'' then decode_loop U r (out @ [10])
            else if esc = ord CHR ''r'' then decode_loop U r (out @ [13])
            else if esc = ord CHR ''t'' then decode_loop U r (out @ [9])
            else if esc = ord CHR ''b'' then decode_loop U r (out @ [8])
            else if esc = ord CHR ''f'' then decode_loop U r (out @ [12])
            else if esc = ord CHR ''v'' then decode_loop U r (out @ [11])
            else if esc = ord CHR ''0'' then decode_loop U r (out @ [0])
            else decode_loop U r (out @ [esc]))))"

definition is_quote :: "nat \<Rightarrow> bool" where
  "is_quote c \<longleftrightarrow> c = ord CHR 0x27 \<or> c = ord CHR 0x22"

definition decode_js_string_literal :: "unicode_db \<Rightarrow> ustr \<Rightarrow> py_error + ustr" where
  "decode_js_string_literal U literal =
     (if 2 \<le> length literal \<and> hd literal = last literal \<and> is_quote (hd literal)
      then decode_loop U (butlast (tl literal)) []
      else Inl NotAStringLiteral)"

section \<open>The literal encoder (\<open>json.dumps(s, ensure_ascii=False)\<close> on a string)\<close>

definition hex_digit :: "nat \<Rightarrow> nat" where
  "hex_digit d = (if d < 10 then 48 + d else 87 + d)"

definition json_escape_char :: "nat \<Rightarrow> ustr" where
  "json_escape_char c =
     (if c = ord CHR 0x22 then [ord CHR 0x5C, ord CHR 0x22]
      else if c = ord CHR 0x5C then [ord CHR 0x5C, ord CHR 0x5C]
      else if c = 10 then [ord CHR 0x5C, ord CHR ''n'']
      else if c = 13 then [ord CHR 0x5C, ord CHR ''r'']
      else if c = 9 then [ord CHR 0x5C, ord CHR ''t'']
      else if c = 8 then [ord CHR 0x5C, ord CHR ''b'']
      else if c = 12 then [ord CHR 0x5C, ord CHR ''f'']
      else if c < 32 then
        [ord CHR 0x5C, ord CHR ''u'', ord CHR ''0'', ord CHR ''0'',
         hex_digit (c div 16), hex_digit (c mod 16)]
      else [c])"

definition json_dumps :: "ustr \<Rightarrow> ustr" where
  "json_dumps s = ord CHR 0x22 # concat (map json_escape_char s) @ [ord CHR 0x22]"

section \<open>The rotation loop of \<open>main\<close>\<close>

text \<open>
  \<open>for _ in range(max_iter)\<close>: evaluate the convergence expression, leave the loop
  when it equals the target, otherwise \<open>arr.append(arr.pop(0))\<close>; the \<open>else\<close> branch
  raises \<open>RuntimeError\<close> (\<open>RotationFailed\<close>).  \<open>conv arr\<close> stands for "the evaluation against \<open>arr\<close> raised
  nothing and its value equalled the target" (an exception is swallowed by
  \<open>except Exception: pass\<close>).  \<open>pop(0)\<close> on an empty list raises \<open>IndexError\<close> outside
  the \<open>try\<close>.  The first component of the result counts the evaluations performed.
\<close>

fun rotate_loop :: "('a list \<Rightarrow> bool) \<Rightarrow> nat \<Rightarrow> nat \<Rightarrow> 'a list \<Rightarrow> nat \<times> (py_error + 'a list)" where
  "rotate_loop conv 0 done arr = (done, Inl RotationFailed)"
| "rotate_loop conv (Suc n) done arr =
     (if conv arr then (Suc done, Inr arr)
      else (case arr of
              [] \<Rightarrow> (Suc done, Inl IndexError)
            | x # xs \<Rightarrow> rotate_loop conv n (Suc done) (xs @ [x])))"

definition max_iter :: "'a list \<Rightarrow> nat" where
  "max_iter arr = max 10000 (length arr * 5)"

definition run_rotation :: "('a list \<Rightarrow> bool) \<Rightarrow> 'a list \<Rightarrow> nat \<times> (py_error + 'a list)" where
  "run_rotation conv arr = rotate_loop conv (max_iter arr) 0 arr"

section \<open>Well-formed string literals\<close>

text \<open>
  A reference recogniser for quoted JavaScript string literals, used to state that the
  encoder's output is properly quoted.  The body may contain any character except the
  quote itself, a backslash, a line feed and a carriage return; a backslash starts an
  escape: \<open>\u\<close> needs four hexadecimal digits, \<open>\x\<close> two, and any other
  character may follow a backslash.  (Braced \<open>\u{...}\<close> escapes are not accepted, so
  the recogniser accepts fewer literals than JavaScript does.)
\<close>

definition is_hex :: "nat \<Rightarrow> bool" where
  "is_hex c = is_digit_in 16 c"

fun js_string_chars :: "nat \<Rightarrow> ustr \<Rightarrow> bool" where
  "js_string_chars q [] = True"
| "js_string_chars q (c # cs) =
     (if c = ord CHR 0x5C then
        (case cs of
           [] \<Rightarrow> False
         | e # r \<Rightarrow>
            (if e = ord CHR ''u'' then
               (case r of
                  a # b # c' # d # r' \<Rightarrow>
                    is_hex a \<and> is_hex b \<and> is_hex c' \<and> is_hex d \<and> js_string_chars q r'
                | _ \<Rightarrow> False)
             else if e = ord CHR ''x'' then
               (case r of
                  a # b # r' \<Rightarrow> is_hex a \<and> is_hex b \<and> js_string_chars q r'
                | _ \<Rightarrow> False)
             else js_string_chars q r))
      else c \<noteq> q \<and> c \<noteq> 10 \<and> c \<noteq> 13 \<and> js_string_chars q cs)"

definition valid_js_string_literal :: "ustr \<Rightarrow> bool" where
  "valid_js_string_literal lit =
     (case lit of
        [] \<Rightarrow> False
      | q # rest \<Rightarrow>
          is_quote q \<and> rest \<noteq> [] \<and> last rest = q \<and> js_string_chars q (butlast rest))"

section \<open>The balanced-region scanner (\<open>_extract_balanced\<close>)\<close>

text \<open>
  \<open>xs[a:b]\<close> for integers \<open>a\<close> and \<open>b\<close>: a negative bound counts from the end, and
  both bounds are clamped to the list.
\<close>

definition py_slice :: "'a list \<Rightarrow> int \<Rightarrow> int \<Rightarrow> 'a list" where
  "py_slice xs a b =
     (let n = int (length xs);
          a' = (if a < 0 then max (a + n) 0 else min a n);
          b' = (if b < 0 then max (b + n) 0 else min b n)
      in take (nat (b' - a')) (drop (nat a') xs))"

text \<open>
  The \<open>while i < len(js)\<close> loop with its four variables \<open>i\<close>, \<open>depth\<close>, \<open>in_str\<close>
  and \<open>escape\<close>.  The delimiters are single characters.
\<close>

function scan_loop ::
  "ustr \<Rightarrow> int \<Rightarrow> nat \<Rightarrow> nat \<Rightarrow> int \<Rightarrow> int \<Rightarrow> nat option \<Rightarrow> bool \<Rightarrow> py_error + (ustr \<times> int)"
where
  "scan_loop js start open_ch close_ch i depth in_str escape =
     (if i < int (length js) then
        (case py_getitem js i of
           Inl e \<Rightarrow> Inl e
         | Inr ch \<Rightarrow>
            (case in_str of
               Some q \<Rightarrow>
                 (if escape then scan_loop js start open_ch close_ch (i + 1) depth in_str False
                  else if ch = ord CHR 0x5C
                    then scan_loop js start open_ch close_ch (i + 1) depth in_str True
                  else if ch = q
                    then scan_loop js start open_ch close_ch (i + 1) depth None escape
                  else scan_loop js start open_ch close_ch (i + 1) depth in_str escape)
             | None \<Rightarrow>
                 (if is_quote ch
                    then scan_loop js start open_ch close_ch (i + 1) depth (Some ch) escape
                  else if ch = open_ch
                    then scan_loop js start open_ch close_ch (i + 1) (depth + 1) in_str escape
                  else if ch = close_ch then
                    (if depth - 1 = 0 then Inr (py_slice js start (i + 1), i + 1)
                     else scan_loop js start open_ch close_ch (i + 1) (depth - 1) in_str escape)
                  else scan_loop js start open_ch close_ch (i + 1) depth in_str escape)))
      else Inl UnbalancedBrackets)"
  by pat_completeness auto
termination
  by (relation "measure (\<lambda>(js, start, open_ch, close_ch, i, depth, in_str, escape).
                   nat (int (length js) - i))") auto

definition extract_balanced :: "ustr \<Rightarrow> int \<Rightarrow> nat \<Rightarrow> nat \<Rightarrow> py_error + (ustr \<times> int)" where
  "extract_balanced js start open_ch close_ch =
     (case py_getitem js start of
        Inl e \<Rightarrow> Inl e
      | Inr c \<Rightarrow>
          if c \<noteq> open_ch then Inl ExpectedOpen
          else scan_loop js start open_ch close_ch start 0 None False)"

subsection \<open>Reference notions: string mode and structural depth\<close>

text \<open>
  The scanner's contract in its own words.  A text is read from the start position in
  one of three modes: code, inside a string opened by a quote \<open>q\<close>, or inside such a
  string directly after an unescaped backslash.
\<close>

datatype lex_mode = Code | InString nat | Escaped nat

fun lex_step :: "lex_mode \<Rightarrow> nat \<Rightarrow> lex_mode" where
  "lex_step Code c = (if is_quote c then InString c else Code)"
| "lex_step (InString q) c =
     (if c = ord CHR 0x5C then Escaped q else if c = q then Code else InString q)"
| "lex_step (Escaped q) c = InString q"

definition lex_after :: "ustr \<Rightarrow> lex_mode" where
  "lex_after seg = foldl lex_step Code seg"

text \<open>
  What one character contributes to the depth: only a delimiter read in code mode
  counts (a quote starts a string and never counts).
\<close>

fun depth_delta :: "nat \<Rightarrow> nat \<Rightarrow> lex_mode \<Rightarrow> nat \<Rightarrow> int" where
  "depth_delta open_ch close_ch Code c =
     (if is_quote c then 0 else if c = open_ch then 1 else if c = close_ch then - 1 else 0)"
| "depth_delta open_ch close_ch (InString q) c = 0"
| "depth_delta open_ch close_ch (Escaped q) c = 0"

fun depth_from :: "nat \<Rightarrow> nat \<Rightarrow> lex_mode \<Rightarrow> ustr \<Rightarrow> int" where
  "depth_from open_ch close_ch m [] = 0"
| "depth_from open_ch close_ch m (c # cs) =
     depth_delta open_ch close_ch m c + depth_from open_ch close_ch (lex_step m c) cs"

definition depth_after :: "nat \<Rightarrow> nat \<Rightarrow> ustr \<Rightarrow> int" where
  "depth_after open_ch close_ch seg = depth_from open_ch close_ch Code seg"

text \<open>
  Position \<open>n\<close> of \<open>seg\<close> holds the structurally matching close delimiter: a close
  delimiter read in code mode that brings the depth back to zero.
\<close>

definition closes_at :: "nat \<Rightarrow> nat \<Rightarrow> ustr \<Rightarrow> nat \<Rightarrow> bool" where
  "closes_at open_ch close_ch seg n \<longleftrightarrow>
     n < length seg
     \<and> depth_delta open_ch close_ch (lex_after (take n seg)) (seg ! n) = - 1
     \<and> depth_after open_ch close_ch (take (Suc n) seg) = 0"

text \<open>The scanner's variables \<open>in_str\<close> and \<open>escape\<close> in each mode.\<close>

fun mode_in_str :: "lex_mode \<Rightarrow> nat option" where
  "mode_in_str Code = None"
| "mode_in_str (InString q) = Some q"
| "mode_in_str (Escaped q) = Some q"

fun mode_escape :: "lex_mode \<Rightarrow> bool" where
  "mode_escape Code = False"
| "mode_escape (InString q) = False"
| "mode_escape (Escaped q) = True"

declare scan_loop.simps [simp del]

section \<open>Regular expressions (the part of \<open>re\<close> the worker uses)\<close>

text \<open>
  Character classes.  \<open>\w\<close>, \<open>\s\<close> and \<open>\d\<close> are the Unicode-aware classes of
  string patterns.
\<close>

definition is_ascii_alnum :: "nat \<Rightarrow> bool" where
  "is_ascii_alnum c \<longleftrightarrow> (48 \<le> c \<and> c \<le> 57) \<or> (65 \<le> c \<and> c \<le> 90) \<or> (97 \<le> c \<and> c \<le> 122)"

definition is_word :: "unicode_db \<Rightarrow> nat \<Rightarrow> bool" where
  "is_word U c = (if c < 128 then is_ascii_alnum c \<or> c = ord CHR ''_'' else u_alnum U c)"

definition is_decimal :: "unicode_db \<Rightarrow> nat \<Rightarrow> bool" where
  "is_decimal U c = (if c < 128 then 48 \<le> c \<and> c \<le> 57 else u_decimal U c \<noteq> None)"

datatype citem = CChar nat | CRange nat nat | CWord | CSpace | CDigit

datatype cls = Pos "citem list" | Neg "citem list"

fun citem_match :: "unicode_db \<Rightarrow> citem \<Rightarrow> nat \<Rightarrow> bool" where
  "citem_match U (CChar x) c = (c = x)"
| "citem_match U (CRange a b) c = (a \<le> c \<and> c \<le> b)"
| "citem_match U CWord c = is_word U c"
| "citem_match U CSpace c = is_uspace c"
| "citem_match U CDigit c = is_decimal U c"

fun cls_match :: "unicode_db \<Rightarrow> cls \<Rightarrow> nat \<Rightarrow> bool" where
  "cls_match U (Pos its) c = list_ex (\<lambda>it. citem_match U it c) its"
| "cls_match U (Neg its) c = (\<not> list_ex (\<lambda>it. citem_match U it c) its)"

text \<open>
  Patterns.  Every repetition in the worker's patterns is a greedy repetition of a
  single character class, so \<open>Star\<close> takes a class.  \<open>Group n r\<close> is the capturing
  group number \<open>n\<close>, \<open>WordB\<close> is \<open>\b\<close> and \<open>Eos\<close> is \<open>$\<close>.
\<close>

datatype regex =
    Eps
  | Chr cls
  | Seq regex regex
  | Alt regex regex
  | Star cls
  | Group nat regex
  | WordB
  | Eos

definition Plus :: "cls \<Rightarrow> regex" where
  "Plus c = Seq (Chr c) (Star c)"

definition Opt :: "regex \<Rightarrow> regex" where
  "Opt r = Alt r Eps"

fun lit_codes :: "ustr \<Rightarrow> regex" where
  "lit_codes [] = Eps"
| "lit_codes (c # cs) = Seq (Chr (Pos [CChar c])) (lit_codes cs)"

definition lit :: "string \<Rightarrow> regex" where
  "lit s = lit_codes (ustr s)"

fun seqs :: "regex list \<Rightarrow> regex" where
  "seqs [] = Eps"
| "seqs (r # rs) = Seq r (seqs rs)"

text \<open>
  The state of a match attempt: the text before the current position (reversed), the
  text from it on, and the groups captured so far (the latest capture first).
\<close>

record mstate =
  s_before :: ustr
  s_after :: ustr
  s_groups :: "(nat \<times> ustr) list"

definition word_at :: "unicode_db \<Rightarrow> ustr \<Rightarrow> bool" where
  "word_at U xs = (case xs of [] \<Rightarrow> False | x # _ \<Rightarrow> is_word U x)"

text \<open>
  The backtracking matcher in continuation-passing style: \<open>k\<close> is what remains to be
  matched after the pattern, and \<open>None\<close> makes the matcher try its next alternative.
  A greedy repetition first tries one more character, then the continuation.
\<close>

fun star_match ::
  "unicode_db \<Rightarrow> cls \<Rightarrow> mstate \<Rightarrow> ustr \<Rightarrow> ustr \<Rightarrow> (mstate \<Rightarrow> 'r option) \<Rightarrow> 'r option" where
  "star_match U c st b [] k = k (st\<lparr>s_before := b, s_after := []\<rparr>)"
| "star_match U c st b (x # xs) k =
     (if cls_match U c x then
        (case star_match U c st (x # b) xs k of
           Some r \<Rightarrow> Some r
         | None \<Rightarrow> k (st\<lparr>s_before := b, s_after := x # xs\<rparr>))
      else k (st\<lparr>s_before := b, s_after := x # xs\<rparr>))"

fun rmatch :: "unicode_db \<Rightarrow> regex \<Rightarrow> mstate \<Rightarrow> (mstate \<Rightarrow> 'r option) \<Rightarrow> 'r option" where
  "rmatch U Eps st k = k st"
| "rmatch U (Chr c) st k =
     (case s_after st of
        [] \<Rightarrow> None
      | x # xs \<Rightarrow> if cls_match U c x then k (st\<lparr>s_before := x # s_before st, s_after := xs\<rparr>) else None)"
| "rmatch U (Seq r1 r2) st k = rmatch U r1 st (\<lambda>st'. rmatch U r2 st' k)"
| "rmatch U (Alt r1 r2) st k =
     (case rmatch U r1 st k of Some r \<Rightarrow> Some r | None \<Rightarrow> rmatch U r2 st k)"
| "rmatch U (Star c) st k = star_match U c st (s_before st) (s_after st) k"
| "rmatch U (Group n r) st k =
     rmatch U r st
       (\<lambda>st'. k (st'\<lparr>s_groups :=
                   (n, rev (take (length (s_before st') - length (s_before st)) (s_before st')))
                   # s_groups st'\<rparr>))"
| "rmatch U WordB st k = (if word_at U (s_before st) \<noteq> word_at U (s_after st) then k st else None)"
| "rmatch U Eos st k = (if s_after st = [] \<or> s_after st = [10] then k st else None)"

text \<open>
  A match object: where it starts, the matched text (\<open>group(0)\<close>) and the groups.
\<close>

record rmatch_obj =
  m_start :: nat
  m_text :: ustr
  m_groups :: "(nat \<times> ustr) list"

definition group :: "rmatch_obj \<Rightarrow> nat \<Rightarrow> ustr option" where
  "group m n = map_of (m_groups m) n"

text \<open>
  One attempt at the position given by \<open>b\<close> (text before, reversed) and \<open>a\<close> (text
  after).  With \<open>must_advance\<close> an empty match is rejected, which makes the matcher
  backtrack.
\<close>

definition match_here :: "unicode_db \<Rightarrow> regex \<Rightarrow> bool \<Rightarrow> ustr \<Rightarrow> ustr \<Rightarrow> rmatch_obj option" where
  "match_here U r must_advance b a =
     rmatch U r \<lparr>s_before = b, s_after = a, s_groups = []\<rparr>
       (\<lambda>st'. if must_advance \<and> length (s_before st') = length b then None
              else Some \<lparr>m_start = length b,
                         m_text = rev (take (length (s_before st') - length b) (s_before st')),
                         m_groups = s_groups st'\<rparr>)"

text \<open>
  The scan behind \<open>finditer\<close> and \<open>sub\<close>: the text is cut into unmatched characters and
  matches, from left to right.  \<open>skip\<close> counts the characters of the current match
  still to be passed.  After an empty match the same position is tried once more for
  a non-empty one.
\<close>

datatype piece = Lit nat | Hit rmatch_obj

fun pieces :: "unicode_db \<Rightarrow> regex \<Rightarrow> ustr \<Rightarrow> ustr \<Rightarrow> nat \<Rightarrow> piece list" where
  "pieces U r b [] skip =
     (if skip = 0 then (case match_here U r False b [] of None \<Rightarrow> [] | Some m \<Rightarrow> [Hit m])
      else [])"
| "pieces U r b (x # xs) skip =
     (if skip > 0 then pieces U r (x # b) xs (skip - 1)
      else
        (case match_here U r False b (x # xs) of
           None \<Rightarrow> Lit x # pieces U r (x # b) xs 0
         | Some m \<Rightarrow>
            (if m_text m \<noteq> [] then Hit m # pieces U r (x # b) xs (length (m_text m) - 1)
             else
               (case match_here U r True b (x # xs) of
                  None \<Rightarrow> Hit m # Lit x # pieces U r (x # b) xs 0
                | Some m' \<Rightarrow> Hit m # Hit m' # pieces U r (x # b) xs (length (m_text m') - 1)))))"

definition finditer :: "unicode_db \<Rightarrow> regex \<Rightarrow> ustr \<Rightarrow> rmatch_obj list" where
  "finditer U r s = concat (map (\<lambda>p. case p of Lit _ \<Rightarrow> [] | Hit m \<Rightarrow> [m]) (pieces U r [] s 0))"

text \<open>\<open>re.search\<close>: the first match of the scan.\<close>

definition re_search :: "unicode_db \<Rightarrow> regex \<Rightarrow> ustr \<Rightarrow> rmatch_obj option" where
  "re_search U r s = (case finditer U r s of [] \<Rightarrow> None | m # _ \<Rightarrow> Some m)"

text \<open>Building blocks shared by the worker's patterns.\<close>

definition ident_start :: cls where
  "ident_start = Pos [CRange (ord CHR ''A'') (ord CHR ''Z''), CRange (ord CHR ''a'') (ord CHR ''z''),
                      CChar (ord CHR ''_''), CChar (ord CHR ''$'')]"

definition ident_rest :: cls where
  "ident_rest = Pos [CWord, CChar (ord CHR ''$'')]"

text \<open>\<open>[A-Za-z_$][\w$]*\<close>\<close>

definition ident_re :: regex where
  "ident_re = Seq (Chr ident_start) (Star ident_rest)"

text \<open>\<open>0x[0-9a-fA-F]+\<close>\<close>

definition hex_class :: cls where
  "hex_class = Pos [CRange (ord CHR ''0'') (ord CHR ''9''), CRange (ord CHR ''a'') (ord CHR ''f''),
                    CRange (ord CHR ''A'') (ord CHR ''F'')]"

definition hex_literal :: regex where
  "hex_literal = Seq (lit ''0x'') (Plus hex_class)"

definition ws :: regex where
  "ws = Star (Pos [CSpace])"

definition ws1 :: regex where
  "ws1 = Plus (Pos [CSpace])"

text \<open>
  \<open>m.group(n)\<close> as a string.  Every group of the patterns below takes part in every
  match, so the value \<open>None\<close> of an unset group does not arise.
\<close>

definition grp :: "rmatch_obj \<Rightarrow> nat \<Rightarrow> ustr" where
  "grp m n = (case group m n of None \<Rightarrow> [] | Some g \<Rightarrow> g)"

section \<open>The alias resolver (\<open>_collect_aliases\<close>)\<close>

text \<open>\<open>\b(?:const|let|var)\s+([A-Za-z_$][\w$]*)\s*=\s*([A-Za-z_$][\w$]*)\s*;\<close>\<close>

definition assign_re :: regex where
  "assign_re =
     seqs [WordB, Alt (lit ''const'') (Alt (lit ''let'') (lit ''var'')), ws1,
           Group 1 ident_re, ws, lit ''='', ws, Group 2 ident_re, ws, lit '';'']"

definition alias_edges :: "unicode_db \<Rightarrow> ustr \<Rightarrow> (ustr \<times> ustr) list" where
  "alias_edges U js = map (\<lambda>m. (grp m 1, grp m 2)) (finditer U assign_re js)"

text \<open>One run of \<open>for left, right in edges\<close>, with the set and the flag \<open>changed\<close>.\<close>

fun alias_pass :: "(ustr \<times> ustr) list \<Rightarrow> ustr set \<Rightarrow> bool \<Rightarrow> ustr set \<times> bool" where
  "alias_pass [] aliases changed = (aliases, changed)"
| "alias_pass ((left, right) # es) aliases changed =
     (if right \<in> aliases \<and> left \<notin> aliases then alias_pass es (insert left aliases) True
      else alias_pass es aliases changed)"

text \<open>
  \<open>while changed\<close>: the source gives no bound, so the loop is a partial function and
  \<open>None\<close> stands for a run that does not return.
\<close>

partial_function (option) alias_loop :: "(ustr \<times> ustr) list \<Rightarrow> ustr set \<Rightarrow> ustr set option" where
  "alias_loop edges aliases =
     (case alias_pass edges aliases False of
        (aliases', changed) \<Rightarrow> if changed then alias_loop edges aliases' else Some aliases')"

definition collect_aliases :: "unicode_db \<Rightarrow> ustr \<Rightarrow> ustr set option" where
  "collect_aliases U js = alias_loop (alias_edges U js) {ustr ''Q''}"

section \<open>Properties\<close>

subsection \<open>The decode function\<close>

lemma decode_in_range:
  assumes "0 \<le> num - offset" and "num - offset < int (length arr)"
  shows "decode arr offset num = Inr (arr ! nat (num - offset))"
  using assms by (simp add: decode_def py_getitem_def)

lemma decode_past_end:
  assumes "int (length arr) \<le> num - offset"
  shows "decode arr offset num = Inl IndexError"
  using assms by (simp add: decode_def py_getitem_def)

lemma decode_negative:
  assumes "num - offset < 0"
  shows "decode arr offset num =
           (if - int (length arr) \<le> num - offset
            then Inr (arr ! nat (num - offset + int (length arr)))
            else Inl IndexError)"
  using assms by (simp add: decode_def py_getitem_def)

text \<open>
  C1: decode returns \<open>table[n - offset]\<close> for a position inside the table and is
  claimed to fail with IndexOutOfRange for every position outside it, negative ones
  included.  With the table \<open>["a", "b"]\<close>, offset 1 and index 0 the computed
  position is \<open>-1\<close>, and the code returns the last element instead of failing.
\<close>

theorem decode_negative_position_wraps:
  "decode [ustr ''a'', ustr ''b''] 1 0 = Inr (ustr ''b'')"
  by (simp add: decode_def py_getitem_def)

subsection \<open>The rotation loop\<close>

lemma rotate_Suc_Cons: "rotate (Suc k) (x # xs) = rotate k (xs @ [x])"
  by (simp add: rotate1_rotate_swap)

lemma rotate_loop_count: "fst (rotate_loop conv n d arr) \<le> d + n"
proof (induction n arbitrary: d arr)
  case 0
  show ?case by simp
next
  case (Suc n)
  show ?case
  proof (cases "conv arr")
    case True
    then show ?thesis by simp
  next
    case False
    show ?thesis
    proof (cases arr)
      case Nil
      with False show ?thesis by simp
    next
      case (Cons x xs)
      with False Suc [of "Suc d" "xs @ [x]"] show ?thesis by simp
    qed
  qed
qed

lemma rotate_loop_exhausted:
  assumes "arr \<noteq> []" and "\<forall>k<n. \<not> conv (rotate k arr)"
  shows "rotate_loop conv n d arr = (d + n, Inl RotationFailed)"
  using assms
proof (induction n arbitrary: d arr)
  case 0
  show ?case by simp
next
  case (Suc n)
  from Suc.prems obtain x xs where arr: "arr = x # xs" by (cases arr) auto
  from Suc.prems(2) have nc: "\<not> conv arr" by (metis rotate0 id_apply zero_less_Suc)
  have "\<forall>k<n. \<not> conv (rotate k (xs @ [x]))"
  proof (intro allI impI)
    fix k assume "k < n"
    then have "\<not> conv (rotate (Suc k) arr)" using Suc.prems(2) by (simp del: rotate_Suc)
    then show "\<not> conv (rotate k (xs @ [x]))" by (simp add: arr rotate_Suc_Cons del: rotate_Suc)
  qed
  then have "rotate_loop conv n (Suc d) (xs @ [x]) = (Suc d + n, Inl RotationFailed)"
    by (intro Suc.IH) simp_all
  with nc arr show ?case by simp
qed

lemma rotate_loop_converges:
  assumes "arr \<noteq> []" and "k < n" and "conv (rotate k arr)"
    and "\<forall>j<k. \<not> conv (rotate j arr)"
  shows "rotate_loop conv n d arr = (d + k + 1, Inr (rotate k arr))"
  using assms
proof (induction n arbitrary: d arr k)
  case 0
  then show ?case by simp
next
  case (Suc n)
  from Suc.prems obtain x xs where arr: "arr = x # xs" by (cases arr) auto
  show ?case
  proof (cases k)
    case 0
    with Suc.prems show ?thesis by simp
  next
    case (Suc k')
    with Suc.prems(4) have nc: "\<not> conv arr" by (metis rotate0 id_apply zero_less_Suc)
    have c': "conv (rotate k' (xs @ [x]))" using Suc.prems(3) by (simp add: Suc arr rotate_Suc_Cons del: rotate_Suc)
    have "\<forall>j<k'. \<not> conv (rotate j (xs @ [x]))"
    proof (intro allI impI)
      fix j assume "j < k'"
      then have "\<not> conv (rotate (Suc j) arr)" using Suc.prems(4) Suc by (simp del: rotate_Suc)
      then show "\<not> conv (rotate j (xs @ [x]))" by (simp add: arr rotate_Suc_Cons del: rotate_Suc)
    qed
    then have "rotate_loop conv n (Suc d) (xs @ [x]) = (Suc d + k' + 1, Inr (rotate k' (xs @ [x])))"
      using c' Suc.prems(2) Suc by (intro Suc.IH) simp_all
    with nc arr Suc show ?thesis by (simp add: rotate_Suc_Cons del: rotate_Suc)
  qed
qed

lemma rotate_loop_pos:
  assumes "0 < n"
  shows "rotate_loop conv n d arr =
           (if conv arr then (Suc d, Inr arr)
            else (case arr of
                    [] \<Rightarrow> (Suc d, Inl IndexError)
                  | x # xs \<Rightarrow> rotate_loop conv (n - 1) (Suc d) (xs @ [x])))"
  using assms by (cases n) (simp_all split: list.splits)

lemma run_rotation_count: "fst (run_rotation conv arr) \<le> max 10000 (length arr * 5)"
  using rotate_loop_count [of conv "max_iter arr" 0 arr] by (simp add: run_rotation_def max_iter_def)

text \<open>
  C5: the loop is claimed to fail with RotationDidNotConverge whenever the expression
  has not equalled the target within the cap.  For a non-empty table that is what
  happens (\<open>rotate_loop_exhausted\<close>), and no run performs more than the cap's number
  of evaluations (\<open>run_rotation_count\<close>).  With an empty table and an expression
  that does not equal the target, the first rotation \<open>arr.pop(0)\<close> raises
  \<open>IndexError\<close> after one evaluation.
\<close>

theorem rotation_empty_table_index_error:
  "run_rotation (\<lambda>_. False) ([] :: ustr list) = (1, Inl IndexError)"
  by (simp add: run_rotation_def max_iter_def rotate_loop_pos)

subsection \<open>Literal decoding and encoding\<close>

lemma hex_digit_facts:
  assumes "d < 16"
  shows "digit_value (hex_digit d) = Some d" and "hex_digit d < 127"
    and "hex_digit d \<noteq> 95" and "\<not> is_cspace (hex_digit d)"
  using assms by (auto simp: digit_value_def hex_digit_def is_cspace_def)

lemma chr_hex_u00:
  assumes "c < 32"
  shows "chr_hex U [48, 48, hex_digit (c div 16), hex_digit (c mod 16)] = Inr c"
proof -
  have d: "c div 16 < 16" "c mod 16 < 16" using assms by auto
  have v: "16 * (c div 16) + c mod 16 = c" by simp
  have z: "digit_value 48 = Some 0" by (simp add: digit_value_def)
  show ?thesis
    using assms v d
    by (simp add: chr_hex_def py_int_def int_norm_char_def starts_prefix_def
        is_cspace_def is_digit_in_def py_chr_def hex_digit_facts [OF d(1)]
        hex_digit_facts [OF d(2)] z mult.commute)
qed

lemma decode_escape:
  "decode_loop U (json_escape_char c @ rest) out = decode_loop U rest (out @ [c])"
proof (cases "c < 32")
  case True
  then show ?thesis
    by (simp add: json_escape_char_def chr_hex_u00)
next
  case False
  then show ?thesis by (simp add: json_escape_char_def)
qed

lemma decode_escaped_string:
  "decode_loop U (concat (map json_escape_char s)) out = Inr (out @ s)"
  by (induction s arbitrary: out) (simp_all add: decode_escape)

lemma is_hex_hex_digit: "d < 16 \<Longrightarrow> is_hex (hex_digit d)"
  by (auto simp: is_hex_def is_digit_in_def digit_value_def hex_digit_def)

lemma is_hex_48: "is_hex 48"
  by (simp add: is_hex_def is_digit_in_def digit_value_def)

lemma valid_escape:
  "js_string_chars 34 (json_escape_char c @ rest) = js_string_chars 34 rest"
proof (cases "c < 32")
  case True
  then have d: "c div 16 < 16" "c mod 16 < 16" by auto
  show ?thesis
    using True
    by (simp add: json_escape_char_def is_hex_hex_digit [OF d(1)] is_hex_hex_digit [OF d(2)]
        is_hex_48)
next
  case False
  then show ?thesis by (simp add: json_escape_char_def)
qed

lemma valid_escaped_string: "js_string_chars 34 (concat (map json_escape_char s))"
  by (induction s) (simp_all add: valid_escape)

text \<open>
  C7: for every string \<open>s\<close>, decoding the literal produced by the encoder gives \<open>s\<close>
  back, and the encoder's output is a properly quoted string literal.
\<close>

theorem literal_roundtrip:
  "decode_js_string_literal U (json_dumps s) = Inr s \<and> valid_js_string_literal (json_dumps s)"
  by (simp add: decode_js_string_literal_def json_dumps_def is_quote_def
      valid_js_string_literal_def decode_escaped_string valid_escaped_string)

theorem literal_roundtrip_witness:
  "decode_js_string_literal ascii_db (json_dumps [0x48, 0x22, 0x5C, 10, 1, 0xE9]) =
     Inr [0x48, 0x22, 0x5C, 10, 1, 0xE9]
   \<and> valid_js_string_literal (json_dumps [0x48, 0x22, 0x5C, 10, 1, 0xE9])"
  using literal_roundtrip [of ascii_db "[0x48, 0x22, 0x5C, 10, 1, 0xE9]"] by simp

lemma decode_trailing_backslash: "decode_loop U [ord CHR 0x5C] out = Inr out"
  by simp

lemma decode_short_x_escape:
  assumes "length r < 2"
  shows "decode_loop U (ord CHR 0x5C # ord CHR ''x'' # r) out = decode_loop U r (out @ [ord CHR ''x''])"
  using assms by simp

text \<open>
  C8: a literal whose body ends in an incomplete escape is claimed never to make the
  decoder fail.  A trailing backslash and a short \<open>\x\<close> escape are indeed tolerated
  (the two lemmas above), but the \<open>\u\<close> branch has no length guard: on the literal
  consisting of a quote, a backslash, \<open>u\<close> and a quote, \<open>int("", 16)\<close> raises
  \<open>ValueError\<close>.
\<close>

theorem decode_bare_u_escape_fails:
  "decode_js_string_literal U (ustr [CHR 0x22, CHR 0x5C, CHR ''u'', CHR 0x22]) = Inl ValueError"
  by (simp add: decode_js_string_literal_def ustr_def is_quote_def chr_hex_def py_int_def)

subsection \<open>The balanced-region scanner\<close>

lemma lex_after_snoc: "lex_after (xs @ [c]) = lex_step (lex_after xs) c"
  by (simp add: lex_after_def)

lemma depth_from_snoc:
  "depth_from op cl m (xs @ [c]) = depth_from op cl m xs + depth_delta op cl (foldl lex_step m xs) c"
  by (induction xs arbitrary: m) simp_all

lemma depth_after_snoc:
  "depth_after op cl (xs @ [c]) = depth_after op cl xs + depth_delta op cl (lex_after xs) c"
  by (simp add: depth_after_def lex_after_def depth_from_snoc)

lemma py_slice_segment:
  assumes "0 \<le> start" and "nat start + k < length js"
  shows "py_slice js start (start + int (Suc k)) = take (Suc k) (drop (nat start) js)"
proof -
  have a: "min start (int (length js)) = start" using assms by linarith
  have b: "min (start + int (Suc k)) (int (length js)) = start + int (Suc k)"
    using assms by linarith
  have c: "\<not> start + int (Suc k) < 0" using assms by linarith
  have d: "nat (start + int (Suc k) - start) = Suc k" by simp
  show ?thesis
    unfolding py_slice_def Let_def using assms(1) c by (simp only: a b d if_False not_less [symmetric])
qed

lemma py_getitem_nat:
  assumes "0 \<le> i" and "nat i < length xs"
  shows "py_getitem xs i = Inr (xs ! nat i)"
  using assms by (simp add: py_getitem_def Let_def)

lemma scan_loop_step:
  fixes js :: ustr and start :: int and op cl k :: nat
  assumes "0 \<le> start" and "k < length (drop (nat start) js)"
  defines "seg \<equiv> drop (nat start) js"
  defines "m \<equiv> lex_after (take k seg)"
  defines "d \<equiv> depth_after op cl (take k seg)"
  shows "scan_loop js start op cl (start + int k) d (mode_in_str m) (mode_escape m) =
           (if closes_at op cl seg k then Inr (take (Suc k) seg, start + int k + 1)
            else scan_loop js start op cl (start + int (Suc k))
                   (depth_after op cl (take (Suc k) seg))
                   (mode_in_str (lex_after (take (Suc k) seg)))
                   (mode_escape (lex_after (take (Suc k) seg))))"
proof -
  have k: "k < length seg" using assms by simp
  then have lt: "nat start + k < length js" by (simp add: seg_def)
  have nth: "js ! nat (start + int k) = seg ! k"
    using assms(1) lt by (simp add: seg_def nat_add_distrib)
  have get: "py_getitem js (start + int k) = Inr (seg ! k)"
    using py_getitem_nat [of "start + int k" js] assms(1) lt nth by (simp add: nat_add_distrib)
  have tk: "take (Suc k) seg = take k seg @ [seg ! k]"
    using k by (simp add: take_Suc_conv_app_nth)
  have la: "lex_after (take (Suc k) seg) = lex_step m (seg ! k)"
    by (simp add: tk lex_after_snoc m_def)
  have da: "depth_after op cl (take (Suc k) seg) = d + depth_delta op cl m (seg ! k)"
    by (simp add: tk depth_after_snoc m_def d_def)
  have cl: "closes_at op cl seg k \<longleftrightarrow>
              depth_delta op cl m (seg ! k) = - 1 \<and> d + depth_delta op cl m (seg ! k) = 0"
    using k by (simp add: closes_at_def da m_def [symmetric])
  have sl: "py_slice js start (start + int (Suc k)) = take (Suc k) seg"
    using py_slice_segment [OF assms(1) lt] by (simp add: seg_def)
  have cond: "start + int k < int (length js)" using lt assms(1) by linarith
  have i1: "start + int k + 1 = start + int (Suc k)" by simp
  show ?thesis
  proof (cases m)
    case Code
    then show ?thesis
      by (subst scan_loop.simps) (auto simp: cond get la da cl sl i1 simp del: of_nat_Suc)
  next
    case (InString q)
    then show ?thesis
      by (subst scan_loop.simps) (auto simp: cond get la da cl sl i1 simp del: of_nat_Suc)
  next
    case (Escaped q)
    then show ?thesis
      by (subst scan_loop.simps) (auto simp: cond get la da cl sl i1 simp del: of_nat_Suc)
  qed
qed

lemma scan_loop_end:
  assumes "0 \<le> start"
  shows "scan_loop js start op cl (start + int (length (drop (nat start) js))) d s e
           = Inl UnbalancedBrackets"
  using assms by (subst scan_loop.simps) auto

lemma scan_loop_correct:
  assumes "0 \<le> start" and "k \<le> length (drop (nat start) js)"
    and "\<forall>j<k. \<not> closes_at op cl (drop (nat start) js) j"
  shows "case scan_loop js start op cl (start + int k)
                (depth_after op cl (take k (drop (nat start) js)))
                (mode_in_str (lex_after (take k (drop (nat start) js))))
                (mode_escape (lex_after (take k (drop (nat start) js)))) of
           Inr (region, e) \<Rightarrow>
             (let n = nat (e - start - 1) in
                closes_at op cl (drop (nat start) js) n
                \<and> (\<forall>j<n. \<not> closes_at op cl (drop (nat start) js) j)
                \<and> region = take (Suc n) (drop (nat start) js)
                \<and> e = start + int n + 1)
         | Inl err \<Rightarrow>
             err = UnbalancedBrackets
             \<and> (\<forall>n<length (drop (nat start) js). \<not> closes_at op cl (drop (nat start) js) n)"
  using assms(2,3)
proof (induction "length (drop (nat start) js) - k" arbitrary: k)
  case 0
  then have "k = length (drop (nat start) js)" by simp
  with 0 show ?case using scan_loop_end [OF assms(1)] by simp
next
  case (Suc r)
  then have k: "k < length (drop (nat start) js)" by simp
  show ?case
  proof (cases "closes_at op cl (drop (nat start) js) k")
    case True
    with Suc.prems show ?thesis
      by (simp add: scan_loop_step [OF assms(1) k])
  next
    case False
    have "\<forall>j<Suc k. \<not> closes_at op cl (drop (nat start) js) j"
      using False Suc.prems(2) less_Suc_eq by blast
    moreover have "r = length (drop (nat start) js) - Suc k" using Suc.hyps(2) by simp
    moreover have "Suc k \<le> length (drop (nat start) js)" using k by simp
    ultimately show ?thesis
      using Suc.hyps(1) [of "Suc k"] False by (simp add: scan_loop_step [OF assms(1) k])
  qed
qed

text \<open>
  C4: when \<open>text[start]\<close> is the open delimiter, the scanner returns the region from
  \<open>start\<close> up to and including the first position that holds the structurally matching
  close delimiter, where delimiters read inside quoted strings (also after a backslash)
  contribute nothing to the depth; it fails with \<open>UnbalancedBrackets\<close> exactly
  when no position of the text after \<open>start\<close> closes the region.
\<close>

theorem scan_matching_close:
  assumes "0 \<le> start" and "start < int (length js)" and "js ! nat start = open_ch"
  shows "case extract_balanced js start open_ch close_ch of
           Inr (region, e) \<Rightarrow>
             (let n = nat (e - start - 1) in
                closes_at open_ch close_ch (drop (nat start) js) n
                \<and> (\<forall>j<n. \<not> closes_at open_ch close_ch (drop (nat start) js) j)
                \<and> region = take (Suc n) (drop (nat start) js)
                \<and> e = start + int n + 1)
         | Inl err \<Rightarrow>
             err = UnbalancedBrackets
             \<and> (\<forall>n<length (drop (nat start) js). \<not> closes_at open_ch close_ch (drop (nat start) js) n)"
proof -
  have "py_getitem js start = Inr open_ch"
    using assms py_getitem_nat [of start js] by simp
  then have "extract_balanced js start open_ch close_ch =
               scan_loop js start open_ch close_ch start 0 None False"
    by (simp add: extract_balanced_def)
  then show ?thesis
    using scan_loop_correct [OF assms(1), of 0 js open_ch close_ch]
    by (simp add: depth_after_def lex_after_def)
qed

lemma depth_unchanged_in_string:
  assumes "k < length seg" and "lex_after (take k seg) \<noteq> Code"
  shows "depth_after op cl (take (Suc k) seg) = depth_after op cl (take k seg)"
proof -
  have "depth_delta op cl (lex_after (take k seg)) (seg ! k) = 0"
    using assms(2) by (cases "lex_after (take k seg)") simp_all
  then show ?thesis
    using assms(1) by (simp add: take_Suc_conv_app_nth depth_after_snoc)
qed

theorem scan_matching_close_witness:
  "(0::int) \<le> 1 \<and> 1 < int (length (ustr ''x{a'}'{b}}c''))
   \<and> ustr ''x{a'}'{b}}c'' ! nat 1 = ord CHR ''{''
   \<and> extract_balanced (ustr ''x{a'}'{b}}c'') 1 (ord CHR ''{'') (ord CHR ''}'')
       = Inr (ustr ''{a'}'{b}}'', 10)
   \<and> closes_at (ord CHR ''{'') (ord CHR ''}'') (drop (nat 1) (ustr ''x{a'}'{b}}c'')) 8"
proof -
  have e: "extract_balanced (ustr ''x{a'}'{b}}c'') 1 (ord CHR ''{'') (ord CHR ''}'')
       = Inr (ustr ''{a'}'{b}}'', 10)"
    by code_simp
  have h: "(0::int) \<le> 1" "1 < int (length (ustr ''x{a'}'{b}}c''))"
    "ustr ''x{a'}'{b}}c'' ! nat 1 = ord CHR ''{''"
    by (simp_all add: ustr_def)
  show ?thesis
    using scan_matching_close [OF h, of "ord CHR ''}''"] e h by (simp add: Let_def)
qed

end
